theory Spec2Isabelle
  imports Main
begin

section \<open>The signup handler \<open>POST /api/auth/signup\<close> (src/app/api/auth/signup/route.ts)\<close>

text \<open>
  The handler is modelled as a function from the parsed request body and the behaviour of
  its collaborators (the database connection and the \<open>User\<close> model, which are imported
  from \<open>@/lib/db\<close> and \<open>@/models/User\<close> and are parameters here) to the HTTP response
  and the list of collaborator calls it made. Every \<open>throw\<close> of the JavaScript is a
  branch of the model, and the two \<open>try\<close>/\<open>catch\<close> blocks are the functions that
  receive those branches. Calls to \<open>console.log\<close> and \<open>console.error\<close> do not
  influence the response and are left out.
\<close>

subsection \<open>JavaScript values\<close>

text \<open>
  The body is what \<open>request.json()\<close> resolves to: a JSON value. A string is a list of
  code units; the model has the 256 code units of Latin-1. A number is represented by
  its rendering under \<open>Number::toString\<close> (\<open>''0''\<close>, \<open>''11000''\<close>, \<open>''1.5''\<close>,
  \<open>''1e+21''\<close>, \<open>''Infinity''\<close>): the handler observes a number only through its
  truthiness, through \<open>=== 11000\<close> and through conversions to string and back, all of
  which are functions of the rendering (\<open>-0\<close> renders as \<open>''0''\<close> and behaves as
  \<open>0\<close> in each of them). An object is the list of its own properties in insertion
  order. \<open>undefined\<close> is not a JSON value: a property that may be \<open>undefined\<close> has
  type \<open>json option\<close>, with \<open>None\<close> for \<open>undefined\<close>.
\<close>

datatype json =
    JNull
  | JBool bool
  | JNum string
  | JStr string
  | JArr "json list"
  | JObj "(string \<times> json) list"

type_synonym document = "(string \<times> json) list"

text \<open>Truthiness (\<open>ToBoolean\<close>), as used by \<open>!name\<close>, \<open>if (existingUser)\<close>,
  \<open>if (body.employeeId)\<close>.\<close>

fun truthy :: "json option \<Rightarrow> bool" where
  "truthy None = False"
| "truthy (Some JNull) = False"
| "truthy (Some (JBool b)) = b"
| "truthy (Some (JNum r)) = (r \<noteq> ''0'' \<and> r \<noteq> ''NaN'')"
| "truthy (Some (JStr s)) = (s \<noteq> [])"
| "truthy (Some (JArr xs)) = True"
| "truthy (Some (JObj kvs)) = True"

text \<open>Reading a property \<open>k\<close> of the body, for the keys the handler reads (\<open>name\<close>,
  \<open>email\<close>, \<open>password\<close>, \<open>phone\<close>, \<open>role\<close>, \<open>employeeId\<close>): an object
  yields its own property; a boolean, number, string or array has none of these keys on
  its prototype chain and yields \<open>undefined\<close>; \<open>null\<close> throws and is handled by the
  caller.\<close>

fun property :: "json \<Rightarrow> string \<Rightarrow> json option" where
  "property (JObj kvs) k = map_of kvs k"
| "property _ k = None"

text \<open>White space: the characters that \<open>String.prototype.trim\<close> strips and that
  \<open>\s\<close> matches (TAB, LF, VT, FF, CR, SP, NBSP within Latin-1).\<close>

definition WhiteSpace :: "char \<Rightarrow> bool" where
  "WhiteSpace c = ((of_char c :: nat) \<in> {9, 10, 11, 12, 13, 32, 160})"

definition trim :: "string \<Rightarrow> string" where
  "trim s = rev (dropWhile WhiteSpace (rev (dropWhile WhiteSpace s)))"

text \<open>\<open>String.prototype.toLowerCase\<close> on Latin-1: \<open>A\<close>-\<open>Z\<close> and the capital
  letters U+00C0-U+00DE (without the multiplication sign U+00D7) move up by 32.\<close>

definition toLowerCase_char :: "char \<Rightarrow> char" where
  "toLowerCase_char c =
     (let n = (of_char c :: nat)
      in if (65 \<le> n \<and> n \<le> 90) \<or> (192 \<le> n \<and> n \<le> 222 \<and> n \<noteq> 215)
         then char_of (n + 32) else c)"

definition toLowerCase :: "string \<Rightarrow> string" where
  "toLowerCase s = map toLowerCase_char s"

text \<open>\<open>Array.prototype.join\<close> on strings.\<close>

fun join :: "string \<Rightarrow> string list \<Rightarrow> string" where
  "join sep [] = []"
| "join sep [x] = x"
| "join sep (x # y # ys) = x @ sep @ join sep (y # ys)"

text \<open>
  \<open>ToString\<close>, which \<open>RegExp.prototype.test\<close> applies to its argument. \<open>None\<close> is
  the \<open>TypeError\<close> ``Cannot convert object to primitive value'': an object parsed from
  JSON that has an own property \<open>toString\<close> hides \<open>Object.prototype.toString\<close> by a
  value that is not callable, and \<open>valueOf\<close> returns the object itself. An array is
  joined with commas, \<open>null\<close> elements rendering as the empty string.
\<close>

fun ToString :: "json \<Rightarrow> string option"
  and elements :: "json list \<Rightarrow> string list option" where
  "ToString JNull = Some ''null''"
| "ToString (JBool b) = Some (if b then ''true'' else ''false'')"
| "ToString (JNum r) = Some r"
| "ToString (JStr s) = Some s"
| "ToString (JArr xs) = map_option (join '','') (elements xs)"
| "ToString (JObj kvs) =
     (if ''toString'' \<in> set (map fst kvs) then None else Some ''[object Object]'')"
| "elements [] = Some []"
| "elements (x # xs) =
     (case (if x = JNull then Some [] else ToString x) of
        None \<Rightarrow> None
      | Some s \<Rightarrow> map_option ((#) s) (elements xs))"

text \<open>
  The pattern \<open>/^[^\s@]+@[^\s@]+\.[^\s@]+$/\<close>: the string splits at some \<open>@\<close> at
  index \<open>i\<close> and some \<open>.\<close> at a later index \<open>j\<close> into three pieces, each of
  them a non-empty run of characters that are neither white space nor \<open>@\<close>.
\<close>

definition not_space_or_at_plus :: "string \<Rightarrow> bool" where
  "not_space_or_at_plus x = (x \<noteq> [] \<and> list_all (\<lambda>c. \<not> WhiteSpace c \<and> c \<noteq> CHR ''@'') x)"

definition emailRegex :: "string \<Rightarrow> bool" where
  "emailRegex s =
     list_ex (\<lambda>i. list_ex (\<lambda>j.
         i < j \<and> s ! i = CHR ''@'' \<and> s ! j = CHR ''.''
         \<and> not_space_or_at_plus (take i s)
         \<and> not_space_or_at_plus (take (j - Suc i) (drop (Suc i) s))
         \<and> not_space_or_at_plus (drop (Suc j) s))
       [0..<length s]) [0..<length s]"

text \<open>\<open>emailRegex.test(email)\<close>: the argument is converted to a string first;
  \<open>None\<close> is the \<open>TypeError\<close> of that conversion.\<close>

definition emailRegex_test :: "json option \<Rightarrow> bool option" where
  "emailRegex_test v =
     map_option emailRegex (case v of None \<Rightarrow> Some ''undefined'' | Some x \<Rightarrow> ToString x)"

text \<open>
  \<open>password.length < 6\<close>. A string has its number of code units and an array its
  number of elements; a boolean or a number has no \<open>length\<close>, and \<open>undefined < 6\<close>
  is false; an object has the own property \<open>length\<close> it was parsed with, or none.
  Only in that last case the operand of \<open><\<close> is not a length: \<open>IsLessThan_6\<close> is the
  comparison of an arbitrary JSON value with \<open>6\<close>. It converts the value to a number;
  for a string this is the floating-point conversion \<open>StringToNumber\<close>, which is
  not modelled: \<open>lt6\<close> stands for \<open>\<lambda>s. StringToNumber(s) < 6\<close>. \<open>None\<close> is again a
  \<open>TypeError\<close> (of the conversion, or of reading \<open>length\<close> from \<open>null\<close> or
  \<open>undefined\<close>).
\<close>

definition IsLessThan_6 :: "(string \<Rightarrow> bool) \<Rightarrow> json option \<Rightarrow> bool option" where
  "IsLessThan_6 lt6 v =
     (case v of
        None \<Rightarrow> Some False
      | Some JNull \<Rightarrow> Some True
      | Some (JBool b) \<Rightarrow> Some True
      | Some (JNum r) \<Rightarrow> Some (lt6 r)
      | Some (JStr s) \<Rightarrow> Some (lt6 s)
      | Some x \<Rightarrow> map_option lt6 (ToString x))"

definition length_lt_6 :: "(string \<Rightarrow> bool) \<Rightarrow> json option \<Rightarrow> bool option" where
  "length_lt_6 lt6 v =
     (case v of
        None \<Rightarrow> None
      | Some JNull \<Rightarrow> None
      | Some (JBool b) \<Rightarrow> Some False
      | Some (JNum r) \<Rightarrow> Some False
      | Some (JStr s) \<Rightarrow> Some (length s < 6)
      | Some (JArr xs) \<Rightarrow> Some (length xs < 6)
      | Some (JObj kvs) \<Rightarrow> IsLessThan_6 lt6 (map_of kvs ''length''))"

subsection \<open>Thrown values\<close>

text \<open>
  What the inner \<open>catch\<close> block reads of a caught value. The properties \<open>name\<close>
  and \<open>message\<close> (here \<open>error_name\<close>, \<open>error_message\<close>) and \<open>errors\<close> are
  read only behind \<open>error instanceof Error\<close>, so they exist in the model only for an
  \<open>Error\<close> instance. \<open>code\<close> is \<open>None\<close> when the value has no
  property \<open>code\<close> (or an \<open>undefined\<close> one). \<open>keyPattern\<close> is \<open>None\<close> when
  \<open>'keyPattern' in error\<close> is false; otherwise it is the result of \<open>Object.keys\<close> on
  the property, which throws on \<open>null\<close> and \<open>undefined\<close>. \<open>errors\<close> is the
  \<open>errors\<close> record of a Mongoose validation error, each entry with its
  \<open>message\<close>, in insertion order; \<open>None\<close> when it is \<open>null\<close> or \<open>undefined\<close>, on
  which \<open>Object.values\<close> throws.
\<close>

datatype key_pattern = Nullish | Keys "string list"

record Error =
  error_name :: string
  error_message :: string
  errors :: "(string \<times> string) list option"

record thrown_object =
  instanceof_Error :: "Error option"
  code :: "json option"
  keyPattern :: "key_pattern option"

text \<open>A thrown value that is not an object (\<open>typeof error \<noteq> 'object'\<close>, or \<open>null\<close>)
  fails every test of the \<open>catch\<close> block.\<close>

datatype thrown = ThrownPrimitive | ThrownObject thrown_object

text \<open>The \<open>TypeError\<close> of calling a method that a value does not have; the wording
  of the message is V8's.\<close>

definition TypeError :: "string \<Rightarrow> thrown" where
  "TypeError msg =
     ThrownObject
       \<lparr>instanceof_Error =
          Some \<lparr>error_name = ''TypeError'', error_message = msg, errors = None\<rparr>,
        code = None, keyPattern = None\<rparr>"

definition is_not_a_function :: "string \<Rightarrow> thrown" where
  "is_not_a_function callee = TypeError (callee @ '' is not a function'')"

text \<open>Calling a string method \<open>m\<close> on the variable \<open>var\<close>: only a string has it.\<close>

definition string_method ::
  "string \<Rightarrow> string \<Rightarrow> (string \<Rightarrow> string) \<Rightarrow> json option \<Rightarrow> thrown + string" where
  "string_method var m f v =
     (case v of
        Some (JStr s) \<Rightarrow> Inr (f s)
      | None \<Rightarrow> Inl (TypeError (''Cannot read properties of undefined (reading ''
                                @ [CHR 0x27] @ m @ [CHR 0x27] @ '')''))
      | Some JNull \<Rightarrow> Inl (TypeError (''Cannot read properties of null (reading ''
                                      @ [CHR 0x27] @ m @ [CHR 0x27] @ '')''))
      | _ \<Rightarrow> Inl (is_not_a_function (var @ ''.'' @ m)))"

subsection \<open>The handler\<close>

text \<open>The interface \<open>UserData\<close> with the values its fields hold at run time: \<open>name\<close>
  and \<open>email\<close> are results of string methods, \<open>phone\<close> is one or \<open>undefined\<close>,
  \<open>password\<close>, \<open>role\<close> and \<open>employeeId\<close> are passed on from the body as they
  are.\<close>

record UserData =
  name :: string
  email :: string
  password :: "json option"
  phone :: "string option"
  role :: json
  employeeId :: "json option"

text \<open>The collaborators. \<open>connectDB\<close> resolves (\<open>None\<close>) or throws.
  \<open>User_findOne\<close> is \<open>User.findOne({ email }).select('_id').lean()\<close> as a function
  of \<open>email\<close>: it throws, or resolves to a document or to \<open>null\<close>. \<open>User_create\<close>
  is \<open>User.create(userData)\<close> followed by \<open>toObject()\<close>: it throws, or yields the
  plain object of the created document. \<open>StringToNumber_lt_6\<close> is the run-time's
  \<open>\<lambda>s. StringToNumber(s) < 6\<close>.\<close>

record collaborators =
  connectDB :: "thrown option"
  User_findOne :: "json option \<Rightarrow> thrown + document option"
  User_create :: "UserData \<Rightarrow> thrown + document"
  StringToNumber_lt_6 :: "string \<Rightarrow> bool"

datatype call = Call_connectDB | Call_findOne "json option" | Call_create UserData

record response =
  status :: nat
  payload :: json

definition handleError :: "string \<Rightarrow> nat \<Rightarrow> response" where
  "handleError msg st = \<lparr>status = st, payload = JObj [(''message'', JStr msg)]\<rparr>"

text \<open>Line 34: \<open>role = 'user'\<close> takes the default when the property is
  \<open>undefined\<close>.\<close>

definition role_of :: "json \<Rightarrow> json" where
  "role_of body = (case property body ''role'' of None \<Rightarrow> JStr ''user'' | Some r \<Rightarrow> r)"

text \<open>Lines 34-50, between the parse and the inner \<open>try\<close>: the destructuring and the
  three checks. \<open>Threw\<close> is a \<open>TypeError\<close>, which only the outer \<open>catch\<close>
  receives.\<close>

datatype validated = Rejected response | Threw | Passed

definition validation :: "(string \<Rightarrow> bool) \<Rightarrow> json \<Rightarrow> validated" where
  "validation lt6 body =
     (if body = JNull then Threw
      else if \<not> truthy (property body ''name'') \<or> \<not> truthy (property body ''email'')
              \<or> \<not> truthy (property body ''password'')
      then Rejected (handleError ''Name, email, and password are required'' 400)
      else case emailRegex_test (property body ''email'') of
        None \<Rightarrow> Threw
      | Some False \<Rightarrow> Rejected (handleError ''Please enter a valid email address'' 400)
      | Some True \<Rightarrow>
         (case length_lt_6 lt6 (property body ''password'') of
            None \<Rightarrow> Threw
          | Some True \<Rightarrow> Rejected (handleError ''Password must be at least 6 characters long'' 400)
          | Some False \<Rightarrow> Passed))"

text \<open>Lines 66-77: the object literal evaluates \<open>name.trim()\<close>, then
  \<open>email.toLowerCase().trim()\<close>, then \<open>phone?.trim()\<close>; \<open>employeeId\<close> is set
  only when \<open>body.employeeId\<close> is truthy.\<close>

definition userData :: "json \<Rightarrow> thrown + UserData" where
  "userData body =
     (case string_method ''name'' ''trim'' trim (property body ''name'') of
        Inl e \<Rightarrow> Inl e
      | Inr n \<Rightarrow>
     (case string_method ''email'' ''toLowerCase'' (trim \<circ> toLowerCase) (property body ''email'') of
        Inl e \<Rightarrow> Inl e
      | Inr m \<Rightarrow>
     (case (case property body ''phone'' of
              None \<Rightarrow> Inr None
            | Some JNull \<Rightarrow> Inr None
            | Some (JStr p) \<Rightarrow> Inr (Some (trim p))
            | Some _ \<Rightarrow> Inl (is_not_a_function ''phone?.trim'')) of
        Inl e \<Rightarrow> Inl e
      | Inr p \<Rightarrow>
          Inr \<lparr>name = n, email = m, password = property body ''password'', phone = p,
               role = role_of body,
               employeeId = (if truthy (property body ''employeeId'')
                             then property body ''employeeId'' else None)\<rparr>)))"

text \<open>Line 86: \<open>delete userObject.password\<close>.\<close>

definition delete :: "string \<Rightarrow> document \<Rightarrow> document" where
  "delete k doc = filter (\<lambda>kv. fst kv \<noteq> k) doc"

text \<open>Lines 53-96, the body of the inner \<open>try\<close>: the result is a response or the value
  thrown, with the calls made up to there.\<close>

definition database :: "collaborators \<Rightarrow> json \<Rightarrow> (thrown + response) \<times> call list" where
  "database env body =
     (case connectDB env of
        Some e \<Rightarrow> (Inl e, [Call_connectDB])
      | None \<Rightarrow>
     (let lookup = [Call_connectDB, Call_findOne (property body ''email'')] in
      case User_findOne env (property body ''email'') of
        Inl e \<Rightarrow> (Inl e, lookup)
      | Inr (Some existingUser) \<Rightarrow>
          (Inr (handleError ''User with this email already exists'' 400), lookup)
      | Inr None \<Rightarrow>
     (case userData body of
        Inl e \<Rightarrow> (Inl e, lookup)
      | Inr ud \<Rightarrow>
     (case User_create env ud of
        Inl e \<Rightarrow> (Inl e, lookup @ [Call_create ud])
      | Inr userObject \<Rightarrow>
          (Inr \<lparr>status = 201,
                payload = JObj [(''user'', JObj (delete ''password'' userObject)),
                                (''message'', JStr ''User created successfully''),
                                (''success'', JBool True)]\<rparr>,
           lookup @ [Call_create ud])))))"

text \<open>Lines 97-119, the inner \<open>catch\<close>: the duplicate-key test of line 107, the
  validation-error test of line 112, and the fallback of lines 117-118.
  \<open>Object.keys\<close> and \<open>Object.values\<close> may throw in their turn (\<open>Inl\<close>), which
  only the outer \<open>catch\<close> receives.\<close>

definition catch_database :: "thrown \<Rightarrow> unit + response" where
  "catch_database error =
     (case error of
        ThrownPrimitive \<Rightarrow>
          Inr (handleError (''Database operation failed: '' @ ''Unknown error occurred'') 500)
      | ThrownObject e \<Rightarrow>
          if code e = Some (JNum ''11000'') then
            (case (case keyPattern e of None \<Rightarrow> Keys [] | Some kp \<Rightarrow> kp) of
               Nullish \<Rightarrow> Inl ()
             | Keys ks \<Rightarrow>
                 Inr (handleError ((case ks of [] \<Rightarrow> ''undefined'' | field # _ \<Rightarrow> field)
                                    @ '' already exists'') 400))
          else
            (case instanceof_Error e of
               None \<Rightarrow>
                 Inr (handleError (''Database operation failed: '' @ ''Unknown error occurred'')
                        500)
             | Some err \<Rightarrow>
                 if error_name err = ''ValidationError'' then
                   (case errors err of
                      None \<Rightarrow> Inl ()
                    | Some es \<Rightarrow> Inr (handleError (join '', '' (map snd es)) 400))
                 else
                   Inr (handleError (''Database operation failed: '' @ error_message err) 500)))"

text \<open>The handler. \<open>request_json\<close> is the outcome of \<open>request.json()\<close>: \<open>None\<close>
  when it throws. The outer \<open>catch\<close> (lines 120-123) turns every remaining throw into
  the fixed 500 response.\<close>

definition POST :: "collaborators \<Rightarrow> json option \<Rightarrow> response \<times> call list" where
  "POST env request_json =
     (case request_json of
        None \<Rightarrow> (handleError ''Invalid JSON payload'' 400, [])
      | Some body \<Rightarrow>
         (case validation (StringToNumber_lt_6 env) body of
            Rejected r \<Rightarrow> (r, [])
          | Threw \<Rightarrow> (handleError ''An unexpected error occurred'' 500, [])
          | Passed \<Rightarrow>
             (case database env body of
                (Inr r, calls) \<Rightarrow> (r, calls)
              | (Inl error, calls) \<Rightarrow>
                 (case catch_database error of
                    Inr r \<Rightarrow> (r, calls)
                  | Inl _ \<Rightarrow> (handleError ''An unexpected error occurred'' 500, calls)))))"

subsection \<open>Observations on a response\<close>

text \<open>\<open>Object.keys\<close> of a JSON value that is an object.\<close>

fun fields :: "json \<Rightarrow> string list" where
  "fields (JObj kvs) = map fst kvs"
| "fields _ = []"

text \<open>The field names a caller sees in a payload: its own, and those of the \<open>user\<close>
  object it carries.\<close>

definition exposed_fields :: "json \<Rightarrow> string list" where
  "exposed_fields p =
     fields p @ (case property p ''user'' of None \<Rightarrow> [] | Some u \<Rightarrow> fields u)"


text \<open>A string without white space at either end.\<close>

definition trimmed :: "string \<Rightarrow> bool" where
  "trimmed s = (s = [] \<or> (\<not> WhiteSpace (hd s) \<and> \<not> WhiteSpace (last s)))"

subsection \<open>Example collaborators\<close>

text \<open>
  Collaborators for running the handler on concrete requests. They are examples, not
  the \<open>User\<close> model of the application: the lookup compares the \<open>email\<close> of each
  stored document with the value it is given, \<open>create\<close> answers with the document of
  any record, its password replaced by a digest, and the number comparison is decided
  only for the renderings of the natural numbers below six. The examples have string
  passwords, so the comparison is never consulted, and nothing below reads from them
  what the application stores.
\<close>

definition document_of :: "UserData \<Rightarrow> document" where
  "document_of ud =
     [(''_id'', JStr ''65f0c0ffee''), (''name'', JStr (name ud)), (''email'', JStr (email ud)),
      (''password'', JStr ''$2a$10$digest''), (''role'', role ud)]"

definition repository :: "document list \<Rightarrow> collaborators" where
  "repository store =
     \<lparr>connectDB = None,
      User_findOne = (\<lambda>e. Inr (find (\<lambda>d. e \<noteq> None \<and> map_of d ''email'' = e) store)),
      User_create = (\<lambda>ud. Inr (document_of ud)),
      StringToNumber_lt_6 = (\<lambda>s. s \<in> set [''0'', ''1'', ''2'', ''3'', ''4'', ''5''])\<rparr>"

text \<open>The same repository with a \<open>create\<close> that throws \<open>t\<close>.\<close>

definition rejecting :: "thrown \<Rightarrow> collaborators" where
  "rejecting t = (repository [])\<lparr>User_create := (\<lambda>ud. Inl t)\<rparr>"

text \<open>The same repository with a \<open>connectDB\<close> that throws \<open>t\<close>, and with a lookup
  that throws \<open>t\<close>.\<close>

definition disconnected :: "thrown \<Rightarrow> collaborators" where
  "disconnected t = (repository [])\<lparr>connectDB := Some t\<rparr>"

definition failing_lookup :: "thrown \<Rightarrow> collaborators" where
  "failing_lookup t = (repository [])\<lparr>User_findOne := (\<lambda>e. Inl t)\<rparr>"

definition alice :: json where
  "alice = JObj [(''name'', JStr ''A''), (''email'', JStr ''a@b.com''),
                 (''password'', JStr ''secret1'')]"


definition bob :: json where
  "bob = JObj [(''name'', JStr ''  Bob ''), (''email'', JStr ''Bob@Example.COM''),
               (''password'', JStr ''hunter22''), (''phone'', JStr '' 555 0100 '')]"

definition alice_stored :: document where
  "alice_stored = [(''_id'', JStr ''65f0c0ffee''), (''email'', JStr ''a@b.com'')]"

text \<open>A MongoDB duplicate-key error (\<open>E11000\<close>) with the given \<open>keyPattern\<close>, and a
  Mongoose validation error with the given \<open>errors\<close>.\<close>

definition MongoServerError :: "key_pattern option \<Rightarrow> thrown_object" where
  "MongoServerError kp =
     \<lparr>instanceof_Error = Some \<lparr>error_name = ''MongoServerError'',
                                error_message = ''E11000 duplicate key error collection: users'',
                                errors = None\<rparr>,
      code = Some (JNum ''11000''), keyPattern = kp\<rparr>"

definition ValidationError :: "(string \<times> string) list \<Rightarrow> thrown_object" where
  "ValidationError es =
     \<lparr>instanceof_Error = Some \<lparr>error_name = ''ValidationError'',
                                error_message = ''User validation failed'',
                                errors = Some es\<rparr>,
      code = None, keyPattern = None\<rparr>"

definition MongooseServerSelectionError :: thrown_object where
  "MongooseServerSelectionError =
     \<lparr>instanceof_Error = Some \<lparr>error_name = ''MongooseServerSelectionError'',
                                error_message = ''connect ECONNREFUSED 127.0.0.1:27017'',
                                errors = None\<rparr>,
      code = None, keyPattern = None\<rparr>"

section \<open>Properties of the handler\<close>

subsection \<open>Unfolding and the shape of a run\<close>

lemmas evaluation =
  POST_def validation_def emailRegex_test_def emailRegex_def not_space_or_at_plus_def
  WhiteSpace_def length_lt_6_def IsLessThan_6_def database_def userData_def string_method_def
  trim_def toLowerCase_def toLowerCase_char_def role_of_def delete_def catch_database_def
  handleError_def is_not_a_function_def TypeError_def repository_def rejecting_def
  document_of_def alice_def

text \<open>After validation the response is decided by the inner \<open>try\<close> and its \<open>catch\<close>;
  before it, no collaborator is called.\<close>

lemma POST_Passed:
  "validation (StringToNumber_lt_6 env) body = Passed \<Longrightarrow>
   POST env (Some body) =
     (case database env body of
        (Inr r, calls) \<Rightarrow> (r, calls)
      | (Inl error, calls) \<Rightarrow>
          (case catch_database error of
             Inr r \<Rightarrow> (r, calls)
           | Inl _ \<Rightarrow> (handleError ''An unexpected error occurred'' 500, calls)))"
  by (simp add: POST_def)

lemma POST_not_Passed:
  "validation (StringToNumber_lt_6 env) body \<noteq> Passed \<Longrightarrow> snd (POST env (Some body)) = []"
  by (simp add: POST_def split: validated.splits)

lemma POST_caught:
  assumes "validation (StringToNumber_lt_6 env) body = Passed"
    and "database env body = (Inl error, calls)"
    and "catch_database error = Inr r"
  shows "POST env (Some body) = (r, calls)"
  using assms by (simp add: POST_Passed)

text \<open>\<open>User.create\<close> is called only on a validated body, after a connection and a
  lookup that found nothing, with the record that lines 66-77 build.\<close>

lemma database_create:
  "Call_create ud \<in> set (snd (database env body)) \<Longrightarrow>
   connectDB env = None \<and> User_findOne env (property body ''email'') = Inr None
   \<and> userData body = Inr ud"
  by (auto simp: database_def Let_def split: option.splits sum.splits)

lemma POST_create:
  "Call_create ud \<in> set (snd (POST env rq)) \<Longrightarrow>
   \<exists>body. rq = Some body \<and> validation (StringToNumber_lt_6 env) body = Passed
          \<and> Call_create ud \<in> set (snd (database env body))"
  by (auto simp: POST_def split: option.splits validated.splits sum.splits prod.splits)

text \<open>\<open>delete\<close> removes the field.\<close>

lemma fields_delete: "k \<notin> fst ` set (delete k doc)"
  by (auto simp: delete_def)

text \<open>Two runs used below: the request of \<open>alice\<close> passes validation, and against
  a repository whose \<open>create\<close> throws \<open>t\<close> the inner \<open>try\<close> ends with \<open>t\<close>
  after the three calls.\<close>

lemma alice_Passed: "validation lt6 alice = Passed"
  by (simp add: evaluation)

lemma rejecting_run:
  "database (rejecting t) alice =
     (Inl t, [Call_connectDB, Call_findOne (Some (JStr ''a@b.com'')),
              Call_create \<lparr>name = ''A'', email = ''a@b.com'', password = Some (JStr ''secret1''),
                           phone = None, role = JStr ''user'', employeeId = None\<rparr>])"
  by (simp add: evaluation)

subsection \<open>Strings\<close>

text \<open>\<open>trim\<close> leaves no white space at either end, \<open>toLowerCase\<close> leaves no
  capital letter, and \<open>emailRegex\<close> is the pattern: the three runs of
  \<open>[^\s@]+\<close> around an \<open>@\<close> and a dot.\<close>

lemma trimmed_trim: "trimmed (trim s)"
proof -
  define t where "t = dropWhile WhiteSpace s"
  define u where "u = dropWhile WhiteSpace (rev t)"
  have trim: "trim s = rev u" by (simp add: trim_def t_def u_def)
  show ?thesis
  proof (cases "u = []")
    case True
    then show ?thesis by (simp add: trim trimmed_def)
  next
    case False
    then have hd_u: "\<not> WhiteSpace (hd u)" unfolding u_def by (rule hd_dropWhile)
    have split: "rev t = takeWhile WhiteSpace (rev t) @ u" by (simp add: u_def)
    from False split have "t \<noteq> []" by auto
    then have hd_t: "\<not> WhiteSpace (hd t)" unfolding t_def by (rule hd_dropWhile)
    have "last u = last (rev t)" using False split by (metis last_appendR)
    also have "\<dots> = hd t" using \<open>t \<noteq> []\<close> by (simp add: last_rev)
    finally have "last u = hd t" .
    with False hd_u hd_t show ?thesis
      by (simp add: trim trimmed_def hd_rev last_rev)
  qed
qed

lemma toLowerCase_char_idem: "toLowerCase_char (toLowerCase_char c) = toLowerCase_char c"
  by (auto simp: toLowerCase_char_def Let_def)

lemma set_trim: "set (trim s) \<subseteq> set s"
proof -
  have "set (trim s) = set (dropWhile WhiteSpace (rev (dropWhile WhiteSpace s)))"
    by (simp add: trim_def)
  also have "\<dots> \<subseteq> set (rev (dropWhile WhiteSpace s))" by (auto dest: set_dropWhileD)
  also have "\<dots> \<subseteq> set s" by (auto dest: set_dropWhileD)
  finally show ?thesis .
qed

lemma toLowerCase_trim: "toLowerCase (trim (toLowerCase s)) = trim (toLowerCase s)"
proof -
  have "toLowerCase_char c = c" if "c \<in> set (trim (toLowerCase s))" for c
  proof -
    from that set_trim have "c \<in> set (toLowerCase s)" by blast
    then show ?thesis by (auto simp: toLowerCase_def toLowerCase_char_idem)
  qed
  then show ?thesis unfolding toLowerCase_def [of "trim _"] by (simp add: map_idI)
qed

lemma emailRegex_iff:
  "emailRegex s \<longleftrightarrow>
     (\<exists>a b c. s = a @ ''@'' @ b @ ''.'' @ c
        \<and> not_space_or_at_plus a \<and> not_space_or_at_plus b \<and> not_space_or_at_plus c)"
proof
  assume "emailRegex s"
  then obtain i j where ij: "i < j" "j < length s" "s ! i = CHR ''@''" "s ! j = CHR ''.''"
    and a: "not_space_or_at_plus (take i s)"
    and b: "not_space_or_at_plus (take (j - Suc i) (drop (Suc i) s))"
    and c: "not_space_or_at_plus (drop (Suc j) s)"
    by (auto simp: emailRegex_def list_ex_iff)
  have "s = take i s @ s ! i # drop (Suc i) s"
    using ij id_take_nth_drop [of i s] by simp
  moreover have "drop (Suc i) s = take (j - Suc i) (drop (Suc i) s) @ s ! j # drop (Suc j) s"
  proof -
    have "j - Suc i < length (drop (Suc i) s)" using ij by simp
    from id_take_nth_drop [OF this] ij show ?thesis by simp
  qed
  ultimately have
    "s = take i s @ ''@'' @ take (j - Suc i) (drop (Suc i) s) @ ''.'' @ drop (Suc j) s"
    using ij by simp
  with a b c show "\<exists>a b c. s = a @ ''@'' @ b @ ''.'' @ c
        \<and> not_space_or_at_plus a \<and> not_space_or_at_plus b \<and> not_space_or_at_plus c"
    by blast
next
  assume "\<exists>a b c. s = a @ ''@'' @ b @ ''.'' @ c
        \<and> not_space_or_at_plus a \<and> not_space_or_at_plus b \<and> not_space_or_at_plus c"
  then obtain a b c where s: "s = a @ ''@'' @ b @ ''.'' @ c"
    and abc: "not_space_or_at_plus a" "not_space_or_at_plus b" "not_space_or_at_plus c"
    by blast
  let ?i = "length a" and ?j = "length a + Suc (length b)"
  have "?i < ?j" "?j < length s" "?i < length s" by (simp_all add: s)
  moreover have "s ! ?i = CHR ''@''" by (simp add: s)
  moreover have "s ! ?j = CHR ''.''" by (simp add: s nth_append)
  moreover have "take ?i s = a" by (simp add: s)
  moreover have "take (?j - Suc ?i) (drop (Suc ?i) s) = b" by (simp add: s)
  moreover have "drop (Suc ?j) s = c" by (simp add: s)
  ultimately show "emailRegex s"
    unfolding emailRegex_def list_ex_iff using abc
    by (intro bexI [of _ ?i] bexI [of _ ?j] conjI) simp_all
qed

subsection \<open>Validation\<close>

text \<open>
  For a body other than \<open>null\<close> whose \<open>email\<close> and \<open>password\<close> are strings
  where present, the checks run in the order of the source: required fields, then the
  email pattern, then the password length; each rejection has status 400.
\<close>

lemma validation_order:
  assumes "body \<noteq> JNull"
    and "property body ''email'' = None \<or> property body ''email'' = Some (JStr e)"
    and "property body ''password'' = None \<or> property body ''password'' = Some (JStr p)"
  shows "validation lt6 body =
     (if \<not> truthy (property body ''name'') \<or> property body ''email'' \<in> {None, Some (JStr [])}
          \<or> property body ''password'' \<in> {None, Some (JStr [])}
      then Rejected (handleError ''Name, email, and password are required'' 400)
      else if \<not> emailRegex e
      then Rejected (handleError ''Please enter a valid email address'' 400)
      else if length p < 6
      then Rejected (handleError ''Password must be at least 6 characters long'' 400)
      else Passed)"
  using assms by (auto simp: validation_def emailRegex_test_def length_lt_6_def)

lemma handleError_status: "status (handleError msg st) = st"
  by (simp add: handleError_def)

lemma validation_status:
  "validation lt6 body = Rejected r \<Longrightarrow> status r = 400"
  by (auto simp: validation_def handleError_def split: if_splits option.splits bool.splits)

text \<open>
  Claim C4 says that for any raw request body the validator yields a normalized request
  or names the first violated rule, each failure with status 400 and no persistence call.
  The body \<open>null\<close> is valid JSON, so \<open>request.json()\<close> resolves; the destructuring
  of line 34 then throws a \<open>TypeError\<close> outside the inner \<open>try\<close>, and the outer
  \<open>catch\<close> answers with status 500 and ``An unexpected error occurred''. No
  collaborator is called. Every other body that lacks the fields (\<open>5\<close>, \<open>[]\<close>,
  \<open>{}\<close>) gets the 400 of the required-fields check.
\<close>

theorem null_body:
  "POST env (Some JNull) = (handleError ''An unexpected error occurred'' 500, [])"
  by (simp add: POST_def validation_def)

subsection \<open>Signing up with an email that exists\<close>

text \<open>
  Claim C1 says that every request whose email is already present in the store is
  answered with status 400 and the message ``User with this email already exists''.
  The handler validates before it looks the email up: with \<open>a@b.com\<close> stored, a
  request for that email with the password \<open>abc\<close> is answered with the message of the
  password check, and no collaborator is called.
\<close>

theorem existing_email_counterexample:
  "User_findOne (repository [alice_stored]) (Some (JStr ''a@b.com'')) = Inr (Some alice_stored)
   \<and> POST (repository [alice_stored])
        (Some (JObj [(''name'', JStr ''A''), (''email'', JStr ''a@b.com''),
                     (''password'', JStr ''abc'')]))
     = (handleError ''Password must be at least 6 characters long'' 400, [])"
  by (simp add: evaluation alice_stored_def)

text \<open>
  Claim C1, amended: for every request whose email the lookup finds, \<open>User.create\<close>
  is not called, so no second record is created; and when the request passes validation
  and the connection succeeds, the response is status 400 with the message ``User with
  this email already exists'', after exactly the connection and the lookup.
\<close>

theorem existing_email:
  assumes "User_findOne env (property body ''email'') = Inr (Some existingUser)"
  shows "(\<forall>ud. Call_create ud \<notin> set (snd (POST env (Some body))))
       \<and> (validation (StringToNumber_lt_6 env) body = Passed \<and> connectDB env = None \<longrightarrow>
            POST env (Some body) =
              (handleError ''User with this email already exists'' 400,
               [Call_connectDB, Call_findOne (property body ''email'')]))"
proof
  show "\<forall>ud. Call_create ud \<notin> set (snd (POST env (Some body)))"
    using assms POST_create database_create by fastforce
next
  show "validation (StringToNumber_lt_6 env) body = Passed \<and> connectDB env = None \<longrightarrow>
            POST env (Some body) =
              (handleError ''User with this email already exists'' 400,
               [Call_connectDB, Call_findOne (property body ''email'')])"
    using assms by (simp add: POST_Passed database_def)
qed

theorem existing_email_witness:
  "User_findOne (repository [alice_stored]) (property alice ''email'') = Inr (Some alice_stored)
   \<and> validation (StringToNumber_lt_6 (repository [alice_stored])) alice = Passed
   \<and> connectDB (repository [alice_stored]) = None
   \<and> POST (repository [alice_stored]) (Some alice) =
       (handleError ''User with this email already exists'' 400,
        [Call_connectDB, Call_findOne (Some (JStr ''a@b.com''))])"
proof -
  have found: "User_findOne (repository [alice_stored]) (property alice ''email'')
                 = Inr (Some alice_stored)"
    by (simp add: evaluation alice_stored_def)
  have passed: "validation (StringToNumber_lt_6 (repository [alice_stored])) alice = Passed"
    by (rule alice_Passed)
  have conn: "connectDB (repository [alice_stored]) = None"
    by (simp add: repository_def)
  have email: "property alice ''email'' = Some (JStr ''a@b.com'')"
    by (simp add: alice_def)
  from existing_email [OF found] passed conn email found show ?thesis by simp
qed

subsection \<open>The success response\<close>

text \<open>
  Claim C2: for every valid, unique signup input (name, email and password are non-empty
  strings, the email matches the pattern, the password has at least 6 code units, the
  phone is a string when there is one, as \<open>UserData\<close> declares, and the lookup finds
  no record for the email), when the connection succeeds and \<open>User.create\<close> yields
  the created record \<open>userObject\<close>, the response has status 201 and the body
  \<open>{user, message: "User created successfully", success: true}\<close>, where \<open>user\<close> is
  \<open>userObject\<close> without its \<open>password\<close> field. The lookup receives the email as it
  was sent; the record carries it lower-cased and trimmed.
\<close>

theorem created:
  assumes "property body ''name'' = Some (JStr n)" and "n \<noteq> []"
    and "property body ''email'' = Some (JStr e)" and "emailRegex e"
    and "property body ''password'' = Some (JStr p)" and "6 \<le> length p"
    and "property body ''phone'' = map_option JStr ph"
    and "connectDB env = None"
    and "User_findOne env (Some (JStr e)) = Inr None"
    and "ud = \<lparr>name = trim n, email = trim (toLowerCase e), password = Some (JStr p),
               phone = map_option trim ph, role = role_of body,
               employeeId = (if truthy (property body ''employeeId'')
                             then property body ''employeeId'' else None)\<rparr>"
    and "User_create env ud = Inr userObject"
  shows "POST env (Some body) =
           (\<lparr>status = 201,
             payload = JObj [(''user'', JObj (delete ''password'' userObject)),
                             (''message'', JStr ''User created successfully''),
                             (''success'', JBool True)]\<rparr>,
            [Call_connectDB, Call_findOne (Some (JStr e)), Call_create ud])
         \<and> ''password'' \<notin> set (fields (JObj (delete ''password'' userObject)))"
proof -
  have "body \<noteq> JNull" using assms(1) by auto
  moreover have "e \<noteq> []" using assms(4) by (auto simp: emailRegex_def)
  moreover have "p \<noteq> []" using assms(6) by auto
  ultimately have passed: "validation (StringToNumber_lt_6 env) body = Passed"
    using assms by (simp add: validation_def emailRegex_test_def length_lt_6_def)
  have ud: "userData body = Inr ud"
    using assms by (cases ph) (simp_all add: userData_def string_method_def)
  have "database env body =
          (Inr \<lparr>status = 201,
             payload = JObj [(''user'', JObj (delete ''password'' userObject)),
                             (''message'', JStr ''User created successfully''),
                             (''success'', JBool True)]\<rparr>,
           [Call_connectDB, Call_findOne (Some (JStr e)), Call_create ud])"
    using assms(3,8,9,11) ud by (simp add: database_def)
  then show ?thesis by (simp add: POST_Passed [OF passed] fields_delete)
qed


theorem created_witness:
  "alice = JObj [(''name'', JStr ''A''), (''email'', JStr ''a@b.com''), (''password'', JStr ''secret1'')]
   \<and> emailRegex ''a@b.com'' \<and> 6 \<le> length ''secret1''
   \<and> User_findOne (repository []) (Some (JStr ''a@b.com'')) = Inr None
   \<and> POST (repository []) (Some alice) =
       (\<lparr>status = 201,
         payload = JObj [(''user'', JObj [(''_id'', JStr ''65f0c0ffee''), (''name'', JStr ''A''),
                                          (''email'', JStr ''a@b.com''), (''role'', JStr ''user'')]),
                         (''message'', JStr ''User created successfully''),
                         (''success'', JBool True)]\<rparr>,
        [Call_connectDB, Call_findOne (Some (JStr ''a@b.com'')),
         Call_create \<lparr>name = ''A'', email = ''a@b.com'', password = Some (JStr ''secret1''),
                      phone = None, role = JStr ''user'', employeeId = None\<rparr>])"
proof -
  let ?ud = "\<lparr>name = trim ''A'', email = trim (toLowerCase ''a@b.com''),
              password = Some (JStr ''secret1''), phone = map_option trim None,
              role = role_of alice,
              employeeId = (if truthy (property alice ''employeeId'')
                            then property alice ''employeeId'' else None)\<rparr>"
  have 1: "property alice ''name'' = Some (JStr ''A'')" by (simp add: alice_def)
  have 2: "''A'' \<noteq> []" by simp
  have 3: "property alice ''email'' = Some (JStr ''a@b.com'')" by (simp add: alice_def)
  have 4: "emailRegex ''a@b.com''" by (simp add: evaluation)
  have 5: "property alice ''password'' = Some (JStr ''secret1'')" by (simp add: alice_def)
  have 6: "6 \<le> length ''secret1''" by simp
  have 7: "property alice ''phone'' = map_option JStr None" by (simp add: alice_def)
  have 8: "connectDB (repository []) = None" by (simp add: repository_def)
  have 9: "User_findOne (repository []) (Some (JStr ''a@b.com'')) = Inr None"
    by (simp add: repository_def)
  have 10: "User_create (repository []) ?ud = Inr (document_of ?ud)"
    by (simp add: repository_def)
  from created [OF 1 2 3 4 5 6 7 8 9 refl 10] 4 6 9 show ?thesis
    by (simp add: evaluation)
qed

subsection \<open>No password in a payload\<close>

lemma fields_handleError: "exposed_fields (payload (handleError msg st)) = [''message'']"
  by (simp add: handleError_def exposed_fields_def)

lemma database_exposed:
  "database env body = (Inr r, calls) \<Longrightarrow> ''password'' \<notin> set (exposed_fields (payload r))"
  by (auto simp: database_def Let_def exposed_fields_def handleError_def delete_def
           split: option.splits sum.splits)

lemma catch_database_exposed:
  "catch_database error = Inr r \<Longrightarrow> exposed_fields (payload r) = [''message'']"
  by (auto simp: catch_database_def fields_handleError
           split: thrown.splits if_splits option.splits key_pattern.splits list.splits)

text \<open>
  Claim C3: for every request and every behaviour of the collaborators, the payload of
  the response has no field \<open>password\<close>, neither among its own fields nor among those
  of the \<open>user\<close> object of a success response; this covers the success response and
  every error response.
\<close>

theorem no_password_field:
  "''password'' \<notin> set (exposed_fields (payload (fst (POST env request_json))))"
proof (cases request_json)
  case None
  then show ?thesis by (simp add: POST_def fields_handleError)
next
  case (Some body)
  show ?thesis
  proof (cases "validation (StringToNumber_lt_6 env) body")
    case (Rejected r)
    then have "\<exists>msg. r = handleError msg 400"
      by (auto simp: validation_def split: if_splits option.splits bool.splits)
    with Rejected Some show ?thesis by (auto simp: POST_def fields_handleError)
  next
    case Threw
    with Some show ?thesis by (simp add: POST_def fields_handleError)
  next
    case Passed
    obtain res calls where db: "database env body = (res, calls)" by (cases "database env body")
    show ?thesis
    proof (cases res)
      case (Inr r)
      with db Passed Some database_exposed [of env body r calls] show ?thesis
        by (simp add: POST_Passed)
    next
      case (Inl error)
      with db Passed Some catch_database_exposed [of error] show ?thesis
        by (cases "catch_database error") (simp_all add: POST_Passed fields_handleError)
    qed
  qed
qed

theorem no_password_field_witness:
  "exposed_fields (payload (fst (POST (repository []) (Some alice))))
     = [''user'', ''message'', ''success'', ''_id'', ''name'', ''email'', ''role'']
   \<and> ''password'' \<in> set (fields (JObj (document_of
         \<lparr>name = ''A'', email = ''a@b.com'', password = Some (JStr ''secret1''),
          phone = None, role = JStr ''user'', employeeId = None\<rparr>)))
   \<and> ''password'' \<notin> set (exposed_fields (payload (fst (POST (repository []) (Some alice)))))"
  using no_password_field [of "repository []" "Some alice"]
  by (simp add: evaluation exposed_fields_def)

subsection \<open>The role\<close>





subsection \<open>The record handed to the repository\<close>

lemma userData_normalized:
  assumes "userData body = Inr ud"
  shows "\<exists>n e. property body ''name'' = Some (JStr n) \<and> name ud = trim n
           \<and> property body ''email'' = Some (JStr e) \<and> email ud = trim (toLowerCase e)
           \<and> (case property body ''phone'' of
                 None \<Rightarrow> phone ud = None
               | Some JNull \<Rightarrow> phone ud = None
               | Some (JStr p) \<Rightarrow> phone ud = Some (trim p)
               | Some _ \<Rightarrow> False)"
  using assms
  by (auto simp: userData_def string_method_def split: sum.splits option.splits json.splits)

text \<open>
  Claim C9: a request that does not pass validation causes no collaborator call; and
  every record handed to \<open>User.create\<close> comes from a request that passed validation
  and is normalized: its name is the trimmed name of the body, its email the
  lower-cased and trimmed email of the body, its phone the trimmed phone of the body
  when there is one; none of them has white space at either end and the email is in
  lower case. (The lookup of line 58 is not a record: it is given the email as it was
  sent.)
\<close>

theorem record_normalized:
  "(validation (StringToNumber_lt_6 env) body \<noteq> Passed \<longrightarrow> snd (POST env (Some body)) = [])
   \<and> (\<forall>ud. Call_create ud \<in> set (snd (POST env (Some body))) \<longrightarrow>
         validation (StringToNumber_lt_6 env) body = Passed
         \<and> (\<exists>n e. property body ''name'' = Some (JStr n) \<and> name ud = trim n
               \<and> property body ''email'' = Some (JStr e) \<and> email ud = trim (toLowerCase e)
               \<and> (case property body ''phone'' of
                     None \<Rightarrow> phone ud = None
                   | Some JNull \<Rightarrow> phone ud = None
                   | Some (JStr p) \<Rightarrow> phone ud = Some (trim p)
                   | Some _ \<Rightarrow> False))
         \<and> trimmed (name ud) \<and> trimmed (email ud) \<and> toLowerCase (email ud) = email ud
         \<and> (\<forall>p. phone ud = Some p \<longrightarrow> trimmed p))"
proof (intro conjI allI impI)
  assume "validation (StringToNumber_lt_6 env) body \<noteq> Passed"
  then show "snd (POST env (Some body)) = []" by (rule POST_not_Passed)
next
  fix ud assume "Call_create ud \<in> set (snd (POST env (Some body)))"
  then have passed: "validation (StringToNumber_lt_6 env) body = Passed"
    and ud: "userData body = Inr ud"
    using POST_create database_create by blast+
  from userData_normalized [OF ud] obtain n e where
    ne: "property body ''name'' = Some (JStr n)" "name ud = trim n"
        "property body ''email'' = Some (JStr e)" "email ud = trim (toLowerCase e)"
    and ph: "(case property body ''phone'' of
                 None \<Rightarrow> phone ud = None
               | Some JNull \<Rightarrow> phone ud = None
               | Some (JStr p) \<Rightarrow> phone ud = Some (trim p)
               | Some _ \<Rightarrow> False)"
    by blast
  show "validation (StringToNumber_lt_6 env) body = Passed" by (rule passed)
  show "\<exists>n e. property body ''name'' = Some (JStr n) \<and> name ud = trim n
               \<and> property body ''email'' = Some (JStr e) \<and> email ud = trim (toLowerCase e)
               \<and> (case property body ''phone'' of
                     None \<Rightarrow> phone ud = None
                   | Some JNull \<Rightarrow> phone ud = None
                   | Some (JStr p) \<Rightarrow> phone ud = Some (trim p)
                   | Some _ \<Rightarrow> False)"
    by (rule userData_normalized [OF ud])
  show "trimmed (name ud)" by (simp add: ne trimmed_trim)
  show "trimmed (email ud)" by (simp add: ne trimmed_trim)
  show "toLowerCase (email ud) = email ud" by (simp add: ne toLowerCase_trim)
  fix p assume "phone ud = Some p"
  with ph show "trimmed p"
    by (auto simp: trimmed_trim split: option.splits json.splits)
qed

theorem record_normalized_witness:
  "validation (StringToNumber_lt_6 (repository [])) bob = Passed
   \<and> snd (POST (repository []) (Some bob)) =
       [Call_connectDB, Call_findOne (Some (JStr ''Bob@Example.COM'')),
        Call_create \<lparr>name = ''Bob'', email = ''bob@example.com'',
                     password = Some (JStr ''hunter22''), phone = Some ''555 0100'',
                     role = JStr ''user'', employeeId = None\<rparr>]
   \<and> trimmed ''Bob'' \<and> trimmed ''bob@example.com'' \<and> trimmed ''555 0100''
   \<and> toLowerCase ''bob@example.com'' = ''bob@example.com''"
proof -
  let ?ud = "\<lparr>name = ''Bob'', email = ''bob@example.com'',
                     password = Some (JStr ''hunter22''), phone = Some ''555 0100'',
                     role = JStr ''user'', employeeId = None\<rparr>"
  have run: "snd (POST (repository []) (Some bob)) =
       [Call_connectDB, Call_findOne (Some (JStr ''Bob@Example.COM'')), Call_create ?ud]"
    by (simp add: evaluation bob_def char_of_def bit_Suc_0_iff)
  then have "Call_create ?ud \<in> set (snd (POST (repository []) (Some bob)))" by simp
  with record_normalized [of "repository []" bob] run show ?thesis by auto
qed

subsection \<open>Failures of the repository\<close>

text \<open>
  Claim C6: when validation has passed and a collaborator throws a duplicate-key error
  that carries a field (its \<open>code\<close> is \<open>11000\<close> and its \<open>keyPattern\<close> has a first
  key \<open>field\<close>), the response has status 400 and the message \<open>field\<close> followed by
  `` already exists''.
\<close>

theorem duplicate_key:
  assumes "validation (StringToNumber_lt_6 env) body = Passed"
    and "database env body = (Inl (ThrownObject e), calls)"
    and "code e = Some (JNum ''11000'')"
    and "keyPattern e = Some (Keys (field # others))"
  shows "POST env (Some body) = (handleError (field @ '' already exists'') 400, calls)"
  using assms(3,4) by (intro POST_caught [OF assms(1,2)]) (simp add: catch_database_def)

theorem duplicate_key_witness:
  "POST (rejecting (ThrownObject (MongoServerError (Some (Keys [''email''])))))
        (Some alice)
   = (\<lparr>status = 400, payload = JObj [(''message'', JStr ''email already exists'')]\<rparr>,
      [Call_connectDB, Call_findOne (Some (JStr ''a@b.com'')),
       Call_create \<lparr>name = ''A'', email = ''a@b.com'', password = Some (JStr ''secret1''),
                    phone = None, role = JStr ''user'', employeeId = None\<rparr>])"
  using duplicate_key [OF alice_Passed rejecting_run, of "MongoServerError (Some (Keys [''email'']))" "''email''" "[]"]
  by (simp add: MongoServerError_def handleError_def)

text \<open>
  Claim C10: when \<open>User.create\<close> throws a duplicate-key error (\<open>code\<close> \<open>11000\<close>)
  that has no \<open>keyPattern\<close> or an empty one, the first key is \<open>undefined\<close> and the
  response has status 400 with the message ``undefined already exists''.
\<close>

theorem duplicate_key_without_field:
  assumes "validation (StringToNumber_lt_6 env) body = Passed"
    and "connectDB env = None"
    and "User_findOne env (property body ''email'') = Inr None"
    and "userData body = Inr ud"
    and "User_create env ud = Inl (ThrownObject e)"
    and "code e = Some (JNum ''11000'')"
    and "keyPattern e = None \<or> keyPattern e = Some (Keys [])"
  shows "POST env (Some body) =
           (handleError ''undefined already exists'' 400,
            [Call_connectDB, Call_findOne (property body ''email''), Call_create ud])"
proof -
  have "database env body =
          (Inl (ThrownObject e),
           [Call_connectDB, Call_findOne (property body ''email''), Call_create ud])"
    using assms(2-5) by (simp add: database_def)
  moreover have "catch_database (ThrownObject e) = Inr (handleError ''undefined already exists'' 400)"
    using assms(6,7) by (auto simp: catch_database_def)
  ultimately show ?thesis by (rule POST_caught [OF assms(1)])
qed

theorem duplicate_key_without_field_witness:
  "POST (rejecting (ThrownObject (MongoServerError None))) (Some alice)
   = (\<lparr>status = 400, payload = JObj [(''message'', JStr ''undefined already exists'')]\<rparr>,
      [Call_connectDB, Call_findOne (Some (JStr ''a@b.com'')),
       Call_create \<lparr>name = ''A'', email = ''a@b.com'', password = Some (JStr ''secret1''),
                    phone = None, role = JStr ''user'', employeeId = None\<rparr>])
   \<and> POST (rejecting (ThrownObject (MongoServerError (Some (Keys []))))) (Some alice)
   = (\<lparr>status = 400, payload = JObj [(''message'', JStr ''undefined already exists'')]\<rparr>,
      [Call_connectDB, Call_findOne (Some (JStr ''a@b.com'')),
       Call_create \<lparr>name = ''A'', email = ''a@b.com'', password = Some (JStr ''secret1''),
                    phone = None, role = JStr ''user'', employeeId = None\<rparr>])"
proof -
  let ?ud = "\<lparr>name = ''A'', email = ''a@b.com'', password = Some (JStr ''secret1''),
              phone = None, role = JStr ''user'', employeeId = None\<rparr>"
  have ud: "userData alice = Inr ?ud" by (simp add: evaluation)
  have email: "property alice ''email'' = Some (JStr ''a@b.com'')" by (simp add: alice_def)
  have a: "POST (rejecting (ThrownObject (MongoServerError kp))) (Some alice) =
           (handleError ''undefined already exists'' 400,
            [Call_connectDB, Call_findOne (property alice ''email''), Call_create ?ud])"
    if "kp = None \<or> kp = Some (Keys [])" for kp
    using that
    by (intro duplicate_key_without_field [OF alice_Passed _ _ ud])
       (auto simp: rejecting_def repository_def MongoServerError_def alice_def)
  from a [of None] a [of "Some (Keys [])"] email show ?thesis
    by (simp add: handleError_def)
qed

text \<open>
  Claim C7: when validation has passed and a collaborator throws a schema-validation
  error (an \<open>Error\<close> named \<open>ValidationError\<close> with its \<open>errors\<close>, and not a
  duplicate-key error), the response has status 400 and its message is the messages of
  the entries of \<open>errors\<close>, joined with a comma and a space.
\<close>

theorem schema_validation:
  assumes "validation (StringToNumber_lt_6 env) body = Passed"
    and "database env body = (Inl (ThrownObject e), calls)"
    and "code e \<noteq> Some (JNum ''11000'')"
    and "instanceof_Error e = Some err"
    and "error_name err = ''ValidationError''"
    and "errors err = Some es"
  shows "POST env (Some body) = (handleError (join '', '' (map snd es)) 400, calls)"
  using assms(3-6) by (intro POST_caught [OF assms(1,2)]) (simp add: catch_database_def)

theorem schema_validation_witness:
  "POST (rejecting (ThrownObject (ValidationError
           [(''role'', ''Role is not valid''), (''phone'', ''Phone is not valid'')])))
        (Some alice)
   = (\<lparr>status = 400,
       payload = JObj [(''message'', JStr ''Role is not valid, Phone is not valid'')]\<rparr>,
      [Call_connectDB, Call_findOne (Some (JStr ''a@b.com'')),
       Call_create \<lparr>name = ''A'', email = ''a@b.com'', password = Some (JStr ''secret1''),
                    phone = None, role = JStr ''user'', employeeId = None\<rparr>])"
  using schema_validation [OF alice_Passed rejecting_run,
      of "ValidationError [(''role'', ''Role is not valid''), (''phone'', ''Phone is not valid'')]"
         "\<lparr>error_name = ''ValidationError'', error_message = ''User validation failed'',
           errors = Some [(''role'', ''Role is not valid''), (''phone'', ''Phone is not valid'')]\<rparr>"
         "[(''role'', ''Role is not valid''), (''phone'', ''Phone is not valid'')]"]
  by (simp add: ValidationError_def handleError_def)

lemma database_status:
  "database env body = (Inr r, calls) \<Longrightarrow> status r \<in> {201, 400}"
  by (auto simp: database_def Let_def handleError_def split: option.splits sum.splits)

lemma catch_database_status:
  "catch_database error = Inr r \<Longrightarrow> status r \<in> {400, 500}"
  by (auto simp: catch_database_def handleError_def
           split: thrown.splits if_splits option.splits key_pattern.splits)

lemma POST_status: "status (fst (POST env request_json)) \<in> {201, 400, 500}"
proof (cases request_json)
  case None
  then show ?thesis by (simp add: POST_def handleError_status)
next
  case (Some body)
  show ?thesis
  proof (cases "validation (StringToNumber_lt_6 env) body")
    case (Rejected r)
    with Some validation_status [OF Rejected] show ?thesis by (simp add: POST_def)
  next
    case Threw
    with Some show ?thesis by (simp add: POST_def handleError_status)
  next
    case Passed
    obtain res calls where db: "database env body = (res, calls)" by (cases "database env body")
    show ?thesis
    proof (cases res)
      case (Inr r)
      with db Passed Some database_status [of env body r calls] show ?thesis
        by (auto simp: POST_Passed)
    next
      case (Inl error)
      with db Passed Some catch_database_status [of error] show ?thesis
        by (cases "catch_database error") (auto simp: POST_Passed handleError_status)
    qed
  qed
qed

text \<open>
  Claim C8: when validation has passed and a collaborator throws (\<open>connectDB\<close>, the
  lookup, or \<open>User.create\<close>) or the building of the record throws, and the value thrown
  is neither a duplicate-key error nor a schema-validation error, the response has status
  500 and the message ``Database operation failed: '' followed by the detail: the message
  of the thrown \<open>Error\<close>, and the fixed text ``Unknown error occurred'' for a thrown
  value that is not an \<open>Error\<close>. Nothing propagates past the handler: every request
  is answered, with status 201, 400 or 500.
\<close>

theorem database_failure:
  assumes "validation (StringToNumber_lt_6 env) body = Passed"
    and "connectDB env = Some error
         \<or> (connectDB env = None \<and> User_findOne env (property body ''email'') = Inl error)
         \<or> (connectDB env = None \<and> User_findOne env (property body ''email'') = Inr None
             \<and> (userData body = Inl error
                 \<or> (\<exists>ud. userData body = Inr ud \<and> User_create env ud = Inl error)))"
    and "\<forall>e. error = ThrownObject e \<longrightarrow>
           code e \<noteq> Some (JNum ''11000'')
           \<and> (\<forall>err. instanceof_Error e = Some err \<longrightarrow> error_name err \<noteq> ''ValidationError'')"
  shows "fst (POST env (Some body)) =
           handleError (''Database operation failed: '' @
              (case error of
                 ThrownPrimitive \<Rightarrow> ''Unknown error occurred''
               | ThrownObject e \<Rightarrow>
                  (case instanceof_Error e of
                     None \<Rightarrow> ''Unknown error occurred''
                   | Some err \<Rightarrow> error_message err))) 500
         \<and> status (fst (POST env request_json)) \<in> {201, 400, 500}"
proof
  show "status (fst (POST env request_json)) \<in> {201, 400, 500}" by (rule POST_status)
next
  let ?r = "handleError (''Database operation failed: '' @
              (case error of
                 ThrownPrimitive \<Rightarrow> ''Unknown error occurred''
               | ThrownObject e \<Rightarrow>
                  (case instanceof_Error e of
                     None \<Rightarrow> ''Unknown error occurred''
                   | Some err \<Rightarrow> error_message err))) 500"
  from assms(2) obtain calls where thrown: "database env body = (Inl error, calls)"
    by (auto simp: database_def)
  have "catch_database error = Inr ?r"
    using assms(3) by (auto simp: catch_database_def split: thrown.splits option.splits)
  with thrown have "POST env (Some body) = (?r, calls)"
    by (rule POST_caught [OF assms(1)])
  then show "fst (POST env (Some body)) = ?r" by simp
qed

theorem database_failure_witness:
  "POST (disconnected (ThrownObject MongooseServerSelectionError)) (Some alice)
   = (\<lparr>status = 500,
       payload = JObj [(''message'',
         JStr ''Database operation failed: connect ECONNREFUSED 127.0.0.1:27017'')]\<rparr>,
      [Call_connectDB])
   \<and> POST (failing_lookup ThrownPrimitive) (Some alice)
   = (\<lparr>status = 500,
       payload = JObj [(''message'',
         JStr ''Database operation failed: Unknown error occurred'')]\<rparr>,
      [Call_connectDB, Call_findOne (Some (JStr ''a@b.com''))])
   \<and> POST (rejecting (ThrownObject MongooseServerSelectionError)) (Some alice)
   = (\<lparr>status = 500,
       payload = JObj [(''message'',
         JStr ''Database operation failed: connect ECONNREFUSED 127.0.0.1:27017'')]\<rparr>,
      [Call_connectDB, Call_findOne (Some (JStr ''a@b.com'')),
       Call_create \<lparr>name = ''A'', email = ''a@b.com'', password = Some (JStr ''secret1''),
                    phone = None, role = JStr ''user'', employeeId = None\<rparr>])"
proof -
  let ?t = "ThrownObject MongooseServerSelectionError"
  let ?ud = "\<lparr>name = ''A'', email = ''a@b.com'', password = Some (JStr ''secret1''),
              phone = None, role = JStr ''user'', employeeId = None\<rparr>"
  have other: "\<forall>e. ?t = ThrownObject e \<longrightarrow>
           code e \<noteq> Some (JNum ''11000'')
           \<and> (\<forall>err. instanceof_Error e = Some err \<longrightarrow> error_name err \<noteq> ''ValidationError'')"
    by (simp add: MongooseServerSelectionError_def)
  have primitive: "\<forall>e. ThrownPrimitive = ThrownObject e \<longrightarrow>
           code e \<noteq> Some (JNum ''11000'')
           \<and> (\<forall>err. instanceof_Error e = Some err \<longrightarrow> error_name err \<noteq> ''ValidationError'')"
    by simp
  have email: "property alice ''email'' = Some (JStr ''a@b.com'')" by (simp add: alice_def)
  have ud: "userData alice = Inr ?ud" by (simp add: evaluation)
  have 1: "fst (POST (disconnected ?t) (Some alice)) =
             handleError (''Database operation failed: ''
                          @ error_message (the (instanceof_Error MongooseServerSelectionError))) 500"
    using database_failure [of "disconnected ?t" alice ?t, OF alice_Passed _ other]
    by (simp add: disconnected_def MongooseServerSelectionError_def)
  have 2: "fst (POST (failing_lookup ThrownPrimitive) (Some alice)) =
             handleError (''Database operation failed: '' @ ''Unknown error occurred'') 500"
    using database_failure [of "failing_lookup ThrownPrimitive" alice ThrownPrimitive,
                            OF alice_Passed _ primitive]
    by (simp add: failing_lookup_def repository_def)
  have 3: "fst (POST (rejecting ?t) (Some alice)) =
             handleError (''Database operation failed: ''
                          @ error_message (the (instanceof_Error MongooseServerSelectionError))) 500"
    using database_failure [of "rejecting ?t" alice ?t, OF alice_Passed _ other] ud email
    by (simp add: rejecting_def repository_def MongooseServerSelectionError_def)
  have calls:
    "snd (POST (disconnected ?t) (Some alice)) = [Call_connectDB]"
    "snd (POST (failing_lookup ThrownPrimitive) (Some alice))
       = [Call_connectDB, Call_findOne (Some (JStr ''a@b.com''))]"
    "snd (POST (rejecting ?t) (Some alice))
       = [Call_connectDB, Call_findOne (Some (JStr ''a@b.com'')), Call_create ?ud]"
    by (simp_all add: evaluation disconnected_def failing_lookup_def
                      MongooseServerSelectionError_def)
  from 1 2 3 calls show ?thesis
    by (simp add: prod_eq_iff handleError_def MongooseServerSelectionError_def)
qed

end
